theory Spec2Isabelle
  imports Complex_Main
begin

section \<open>Values of the agent\<close>

text \<open>
  The agent of \<^verbatim>\<open>wrapper.py\<close> reads signed command files, decodes them with
  \<^verbatim>\<open>json.loads\<close> and walks the decoded value. The decoded value is a \<open>json\<close>: Python's
  \<^verbatim>\<open>None\<close> is \<open>JNull\<close>, its \<^verbatim>\<open>int\<close> and (finite) \<^verbatim>\<open>float\<close> are \<open>JNum\<close>, a
  \<^verbatim>\<open>dict\<close> is the list of its items (keys distinct). Python compares an int and a float
  by their exact values, so one numeric type orders them as the code does. The
  literals \<^verbatim>\<open>NaN\<close> and \<^verbatim>\<open>Infinity\<close>, which \<^verbatim>\<open>json.loads\<close> also reads, are outside
  the model.
\<close>

datatype json =
  JNull
| JBool bool
| JNum real
| JStr string
| JArr "json list"
| JObj "(string \<times> json) list"

text \<open>The exceptions the code can meet; \<open>OSError\<close> stands for its subclasses too.\<close>

datatype error = TypeError | AttributeError | ValueError | OverflowError | IndexError | OSError

text \<open>\<^verbatim>\<open>d.get(k, default)\<close> on a dict.\<close>

definition dict_get :: "(string \<times> json) list \<Rightarrow> string \<Rightarrow> json \<Rightarrow> json" where
  "dict_get d k dflt = (case map_of d k of None \<Rightarrow> dflt | Some v \<Rightarrow> v)"

text \<open>Python's truth value of a decoded value (\<^verbatim>\<open>if node_targets\<close>, \<^verbatim>\<open>if new_node_id\<close>).\<close>

fun truthy :: "json \<Rightarrow> bool" where
  "truthy JNull = False"
| "truthy (JBool b) = b"
| "truthy (JNum r) = (r \<noteq> 0)"
| "truthy (JStr s) = (s \<noteq> [])"
| "truthy (JArr xs) = (xs \<noteq> [])"
| "truthy (JObj d) = (d \<noteq> [])"

text \<open>
  The number a value is in a comparison or a division: \<^verbatim>\<open>bool\<close> is a subclass of
  \<^verbatim>\<open>int\<close>; every other type raises \<^verbatim>\<open>TypeError\<close> there.
\<close>

fun num_of :: "json \<Rightarrow> real option" where
  "num_of (JNum r) = Some r"
| "num_of (JBool b) = Some (if b then 1 else 0)"
| "num_of _ = None"

text \<open>\<^verbatim>\<open>for command in v\<close>: a list gives its elements, a dict its keys, a string its
  characters; anything else is not iterable.\<close>

fun iter_json :: "json \<Rightarrow> error + json list" where
  "iter_json (JArr xs) = Inr xs"
| "iter_json (JObj d) = Inr (map (\<lambda>kv. JStr (fst kv)) d)"
| "iter_json (JStr s) = Inr (map (\<lambda>c. JStr [c]) s)"
| "iter_json _ = Inl TypeError"

fun is_substring :: "string \<Rightarrow> string \<Rightarrow> bool" where
  "is_substring n [] = (n = [])"
| "is_substring n (c # s) = (take (length n) (c # s) = n \<or> is_substring n s)"

text \<open>
  \<^verbatim>\<open>x in v\<close>: membership in a list, key membership in a dict (an unhashable \<open>x\<close> raises),
  substring test in a string (a left operand that is no string raises); a number or
  \<^verbatim>\<open>None\<close> on the right raises. Elements are compared with HOL's equality, which is
  Python's \<^verbatim>\<open>==\<close> on strings (node identifiers are strings).
\<close>

fun py_in :: "json \<Rightarrow> json \<Rightarrow> error + bool" where
  "py_in x (JArr xs) = Inr (x \<in> set xs)"
| "py_in (JStr k) (JObj d) = Inr (k \<in> set (map fst d))"
| "py_in (JArr _) (JObj d) = Inl TypeError"
| "py_in (JObj _) (JObj d) = Inl TypeError"
| "py_in _ (JObj d) = Inr False"
| "py_in (JStr n) (JStr s) = Inr (is_substring n s)"
| "py_in _ (JStr s) = Inl TypeError"
| "py_in _ _ = Inl TypeError"

subsection \<open>Strings and paths\<close>

definition newline :: char where
  "newline = CHR 0x0A"

text \<open>
  Reading a text file and \<^verbatim>\<open>str.strip()\<close> are Python's own: a file opened with mode
  \<^verbatim>\<open>'r'\<close> is decoded by the encoding of the locale, every kind of line end ends a line,
  and \<^verbatim>\<open>strip\<close> removes the white space of Unicode. The model takes them from the
  environment (below), as it takes \<^verbatim>\<open>json.loads\<close>. The two functions here are what
  they are on the files of the examples, which are ASCII text with line feeds and no
  other white space than blanks: the next line with its line feed and the rest of the
  file, and the text without the ASCII white space at its ends.
\<close>

definition ascii_readline :: "string \<Rightarrow> string \<times> string" where
  "ascii_readline s =
     (let l = takeWhile (\<lambda>c. c \<noteq> newline) s in
      case dropWhile (\<lambda>c. c \<noteq> newline) s of
        [] \<Rightarrow> (l, [])
      | c # r \<Rightarrow> (l @ [c], r))"

definition is_space :: "char \<Rightarrow> bool" where
  "is_space c = (of_char c \<in> {9, 10, 11, 12, 13, 28, 29, 30, 31, 32 :: nat})"

definition ascii_strip :: "string \<Rightarrow> string" where
  "ascii_strip s = rev (dropWhile is_space (rev (dropWhile is_space s)))"

text \<open>\<^verbatim>\<open>os.path.basename\<close> and \<^verbatim>\<open>os.path.dirname\<close> (posixpath).\<close>

definition basename :: "string \<Rightarrow> string" where
  "basename p = rev (takeWhile (\<lambda>c. c \<noteq> CHR ''/'') (rev p))"

definition dirname :: "string \<Rightarrow> string" where
  "dirname p =
     (let head = rev (dropWhile (\<lambda>c. c \<noteq> CHR ''/'') (rev p)) in
      if head \<noteq> [] \<and> \<not> list_all (\<lambda>c. c = CHR ''/'') head
      then rev (dropWhile (\<lambda>c. c = CHR ''/'') (rev head))
      else head)"

text \<open>\<^verbatim>\<open>s.split(c)\<close> for a one-character separator.\<close>

fun split_on :: "char \<Rightarrow> string \<Rightarrow> string list" where
  "split_on c [] = [[]]"
| "split_on c (x # xs) =
     (if x = c then [] # split_on c xs
      else (case split_on c xs of [] \<Rightarrow> [[x]] | y # ys \<Rightarrow> (x # y) # ys))"

section \<open>The machine: files, the child process, the environment\<close>

text \<open>
  A file has its bytes and its permission bits. Paths are compared as strings: two
  different strings are two different files (no symbolic link, no relative spelling of
  an absolute path).
\<close>

record local_file =
  content :: string
  mode :: nat

text \<open>\<^verbatim>\<open>stat.S_IEXEC\<close>, the owner's execute bit \<^verbatim>\<open>0o100\<close>.\<close>

definition S_IEXEC :: nat where
  "S_IEXEC = 64"

definition owner_executable :: "local_file \<Rightarrow> bool" where
  "owner_executable f = bit (mode f) 6"

text \<open>Some read or write bit (\<^verbatim>\<open>0o666\<close>) is set.\<close>

definition readable_or_writable :: "local_file \<Rightarrow> bool" where
  "readable_or_writable f =
     (bit (mode f) 8 \<or> bit (mode f) 7 \<or> bit (mode f) 5 \<or> bit (mode f) 4 \<or>
      bit (mode f) 2 \<or> bit (mode f) 1)"

text \<open>A \<^verbatim>\<open>subprocess.Popen\<close> handle: its pid and whether the agent has ended it.\<close>

record popen =
  pid :: nat
  terminated :: bool

text \<open>
  What the agent does to the machine through the Supervisor and the Update Mechanism, in
  the order it does it: each call below is recorded when the code makes it.
\<close>

datatype effect =
  Started string "string list" nat
| Terminated nat
| Slept real
| MadeDirs string
| Downloaded string string
| Replaced string string
| Chmodded string nat

text \<open>The calls whose failure the file model does not decide; the environment does.\<close>

datatype os_call =
  Makedirs string
| Replace string string
| Popen string
| OpenAppend string
| OpenRead string
| Copyfile string string
| Chmod string

text \<open>
  The command line of the agent, after \<^verbatim>\<open>get_args\<close> and the initialisation section:
  \<open>binary_path\<close> is \<^verbatim>\<open>args["binary"]\<close> as given and \<open>argv0\<close> is \<^verbatim>\<open>sys.argv[0]\<close>.
  \<open>abspath\<close> is \<^verbatim>\<open>os.path.abspath\<close> in the working directory of the agent, which is
  also the file the operating system finds under a path, and \<open>expanduser\<close> is
  \<^verbatim>\<open>os.path.expanduser\<close> for the user of the agent. The file map of the state is keyed
  by absolute paths: the binary and the script are reached under two spellings (the
  path as given, and its absolute form in the registry), so the model resolves them;
  every other file is reached under one spelling only, which is its key.
\<close>

record config =
  binary_path :: string
  argv0 :: string
  abspath :: "string \<Rightarrow> string"
  expanduser :: "string \<Rightarrow> string"
  config_file :: string
  rsa_certificate_path :: string
  management_directory :: string
  log_path :: string
  cmd_log_dir :: string
  id_path :: string
  err_output_path :: "string option"
  disableupdates :: bool

text \<open>The valid "install" paths we can write to, with their local paths.\<close>

definition valid_paths :: "config \<Rightarrow> (string \<times> string) list" where
  "valid_paths cfg =
     [(''binary'', abspath cfg (expanduser cfg (binary_path cfg))),
      (''wrapper'', abspath cfg (argv0 cfg)),
      (''config'', config_file cfg),
      (''cert'', rsa_certificate_path cfg)]"

text \<open>
  Everything outside the agent, as it stands during one poll tick: the clock, the
  object store (\<open>download_file src dst\<close> is the bytes boto3 writes to \<open>dst\<close>, or
  \<open>None\<close> when the transfer raises), the permission bits of a file the agent creates,
  which system calls fail, which children have exited on their own, and the library
  functions the code calls (SHA-256, JSON, base64, X.509, signature check, \<^verbatim>\<open>str\<close> and
  \<^verbatim>\<open>int\<close> of a value, reading text and \<^verbatim>\<open>strip\<close>), kept abstract.
  \<open>text_readline bs\<close> is \<^verbatim>\<open>readline()\<close> on a text file whose unread bytes are \<open>bs\<close>: the
  line and the bytes left, or \<open>None\<close> when the decoding raises; \<open>text_read bs\<close> is
  \<^verbatim>\<open>read()\<close> on it. A text is kept as its bytes.
\<close>

record env =
  now :: real
  download_file :: "string \<Rightarrow> string \<Rightarrow> string option"
  create_mode :: nat
  os_fails :: "os_call \<Rightarrow> bool"
  child_exited :: "nat \<Rightarrow> bool"
  uuid1 :: string
  max_sleep :: real
  sha256_hexdigest :: "string \<Rightarrow> string"
  json_loads :: "string \<Rightarrow> json option"
  b64decode :: "json \<Rightarrow> string option"
  load_certificate :: "string \<Rightarrow> string option"
  crypto_verify :: "string \<Rightarrow> string \<Rightarrow> string \<Rightarrow> bool"
  py_str :: "json \<Rightarrow> string"
  int_of_str :: "string \<Rightarrow> int option"
  text_readline :: "string \<Rightarrow> (string \<times> string) option"
  text_read :: "string \<Rightarrow> string option"
  str_strip :: "string \<Rightarrow> string"

text \<open>
  The agent's own state: the files, the command log directory (kept apart from the
  files: one entry per saved command file, with the parts of its name), the globals
  \<^verbatim>\<open>timestamps\<close>, \<^verbatim>\<open>process\<close>, \<^verbatim>\<open>read_node_id\<close> and \<^verbatim>\<open>generated_uuid\<close>, and the record
  of effects.
\<close>

record world =
  fs :: "string \<Rightarrow> local_file option"
  cmdlog :: "(string \<times> string \<times> int \<times> string \<times> string) list"
  timestamps :: "real list"
  process :: "popen option"
  next_pid :: nat
  read_node_id :: json
  generated_uuid :: "string option"
  effects :: "effect list"

text \<open>How a piece of the control flow ends: it falls through, it raises, or \<^verbatim>\<open>sys.exit\<close>.\<close>

datatype outcome = Normal world | Raised error world | Exited int world

fun exited :: "outcome \<Rightarrow> bool" where
  "exited (Exited n w) = True"
| "exited _ = False"

fun raised :: "outcome \<Rightarrow> bool" where
  "raised (Raised e w) = True"
| "raised _ = False"

fun world_of :: "outcome \<Rightarrow> world" where
  "world_of (Normal w) = w"
| "world_of (Raised e w) = w"
| "world_of (Exited n w) = w"

definition consume :: "nat \<Rightarrow> real \<Rightarrow> world \<Rightarrow> world" where
  \<comment> \<open>\<^verbatim>\<open>timestamps[i] = timestamp\<close>\<close>
  "consume i timestamp w = w\<lparr>timestamps := (timestamps w)[i := timestamp]\<rparr>"

definition record_effect :: "effect \<Rightarrow> world \<Rightarrow> world" where
  "record_effect e w = w\<lparr>effects := effects w @ [e]\<rparr>"

section \<open>The functions of wrapper.py\<close>

subsection \<open>download\<close>

text \<open>
  \<^verbatim>\<open>download\<close> catches every exception of the transfer and logs it: it never raises, and
  a failed transfer leaves the destination as it was.
\<close>

definition download :: "env \<Rightarrow> string \<Rightarrow> string \<Rightarrow> world \<Rightarrow> world" where
  "download env src_path dst_path w =
     (case download_file env src_path dst_path of
        None \<Rightarrow> w
      | Some bs \<Rightarrow> w\<lparr>fs := (fs w)(dst_path \<mapsto> \<lparr>content = bs, mode = create_mode env\<rparr>)\<rparr>)"

subsection \<open>start\_binary, terminate\_process\<close>

definition start_binary ::
  "env \<Rightarrow> string \<Rightarrow> string \<Rightarrow> string list \<Rightarrow> world \<Rightarrow> error + (popen \<times> world)" where
  "start_binary env bin_path log_file bin_args w =
     (if os_fails env (OpenAppend log_file) then Inl OSError
      else if os_fails env (Popen bin_path) then Inl OSError
      else Inr (\<lparr>pid = next_pid w, terminated = False\<rparr>,
                record_effect (Started bin_path bin_args (next_pid w))
                  (w\<lparr>next_pid := Suc (next_pid w)\<rparr>)))"

text \<open>
  \<^verbatim>\<open>terminate_process(p)\<close> ends the process behind the handle and waits for it; the
  handle it returns is the same object, now ended.
\<close>

definition terminate_process :: "popen option \<Rightarrow> world \<Rightarrow> popen option \<times> world" where
  "terminate_process p w =
     (case p of
        None \<Rightarrow> (None, w)
      | Some h \<Rightarrow> (Some (h\<lparr>terminated := True\<rparr>), record_effect (Terminated (pid h)) w))"

text \<open>\<^verbatim>\<open>process is None or process.poll() is not None\<close>\<close>

definition not_running :: "env \<Rightarrow> world \<Rightarrow> bool" where
  "not_running env w =
     (case process w of
        None \<Rightarrow> True
      | Some h \<Rightarrow> terminated h \<or> child_exited env (pid h))"

text \<open>
  The start of the wrapped binary, as the main loop writes it twice: with
  \<^verbatim>\<open>--config\<close> when the configuration file is there, with no argument otherwise;
  the new handle becomes \<^verbatim>\<open>process\<close>.
\<close>

definition start_with_config :: "config \<Rightarrow> env \<Rightarrow> world \<Rightarrow> outcome" where
  "start_with_config cfg env w =
     (case start_binary env (binary_path cfg) (log_path cfg)
             (if fs w (config_file cfg) = None then [] else [''--config'', config_file cfg]) w of
        Inl e \<Rightarrow> Raised e w
      | Inr (p, w') \<Rightarrow> Normal (w'\<lparr>process := Some p\<rparr>))"

subsection \<open>get\_node\_id\<close>

definition read_id_file :: "env \<Rightarrow> string \<Rightarrow> world \<Rightarrow> json option" where
  "read_id_file env path w =
     (case fs w path of
        None \<Rightarrow> None
      | Some f \<Rightarrow>
          (case text_read env (content f) of
             None \<Rightarrow> None
           | Some text \<Rightarrow>
               (case json_loads env (str_strip env text) of
                  Some (JObj d) \<Rightarrow>
                    (if truthy (dict_get d ''id'' JNull) then Some (dict_get d ''id'' JNull)
                     else None)
                | _ \<Rightarrow> None)))"

definition get_node_id :: "env \<Rightarrow> string \<Rightarrow> world \<Rightarrow> json \<times> world" where
  "get_node_id env path w =
     (if truthy (read_node_id w) then (read_node_id w, w)
      else case read_id_file env path w of
        Some new_node_id \<Rightarrow> (new_node_id, w\<lparr>read_node_id := new_node_id\<rparr>)
      | None \<Rightarrow>
          (case generated_uuid w of
             None \<Rightarrow> (JStr (uuid1 env), w\<lparr>generated_uuid := Some (uuid1 env)\<rparr>)
           | Some u \<Rightarrow>
               if u = [] then (JStr (uuid1 env), w\<lparr>generated_uuid := Some (uuid1 env)\<rparr>)
               else (JStr u, w)))"

subsection \<open>verify\_cmd\<close>

text \<open>
  \<open>inbuf\<close> is the command file as the caller opened it (its bytes, none read yet),
  \<open>public_key_path\<close> the certificate's path. The certificate is opened before the
  \<^verbatim>\<open>try\<close>: a file that cannot be opened (it is missing, or the operating system
  refuses) raises to the caller. Everything after it is inside the \<^verbatim>\<open>try\<close>, whose
  handler returns \<^verbatim>\<open>command_json\<close> as far as it was decoded (\<^verbatim>\<open>None\<close> before) and
  \<^verbatim>\<open>False\<close>. A certificate whose text cannot be read or loaded is \<open>None\<close> of
  \<open>load_certificate\<close>.
\<close>

definition verify_cmd :: "env \<Rightarrow> string \<Rightarrow> string \<Rightarrow> world \<Rightarrow> error + (json \<times> bool)" where
  "verify_cmd env inbuf public_key_path w =
     (if os_fails env (OpenRead public_key_path) then Inl OSError
      else case fs w public_key_path of
        None \<Rightarrow> Inl OSError
      | Some cert \<Rightarrow>
          (case load_certificate env (content cert) of
             None \<Rightarrow> Inr (JNull, False)
           | Some key \<Rightarrow>
               (case text_readline env inbuf of
                  None \<Rightarrow> Inr (JNull, False)
                | Some (line, rest) \<Rightarrow>
                    (case json_loads env (str_strip env line) of
                       None \<Rightarrow> Inr (JNull, False)
                     | Some command_json \<Rightarrow>
                         (case text_readline env rest of
                            None \<Rightarrow> Inr (command_json, False)
                          | Some (sig_line, rest') \<Rightarrow>
                              (case json_loads env sig_line of
                                 Some (JObj sig_json) \<Rightarrow>
                                   (case b64decode env (dict_get sig_json ''signature'' JNull) of
                                      None \<Rightarrow> Inr (command_json, False)
                                    | Some signature \<Rightarrow>
                                        if crypto_verify env key signature (str_strip env line)
                                        then Inr (command_json, True)
                                        else Inr (command_json, False))
                               | _ \<Rightarrow> Inr (command_json, False)))))))"

subsection \<open>save\_cmd\<close>

text \<open>\<^verbatim>\<open>int(x)\<close>: a float is cut towards zero, a string is parsed, \<^verbatim>\<open>None\<close>, a list or a
  dict raise.\<close>

fun py_int :: "env \<Rightarrow> json \<Rightarrow> error + int" where
  "py_int env (JNum r) = Inr (if 0 \<le> r then \<lfloor>r\<rfloor> else \<lceil>r\<rceil>)"
| "py_int env (JBool b) = Inr (if b then 1 else 0)"
| "py_int env (JStr s) = (case int_of_str env s of None \<Rightarrow> Inl ValueError | Some n \<Rightarrow> Inr n)"
| "py_int env _ = Inl TypeError"

text \<open>
  The copy \<^verbatim>\<open>destdir/command_2849204.json\<close> is the entry (directory, first part of the
  name, time, second part of the name, bytes) of the command log.
\<close>

definition save_cmd ::
  "env \<Rightarrow> string \<Rightarrow> string \<Rightarrow> bool \<Rightarrow> json \<Rightarrow> world \<Rightarrow> error + world" where
  "save_cmd env file_path dest_dir valid cmd_time w =
     (if os_fails env (Makedirs dest_dir) then Inl OSError
      else case split_on (CHR ''.'') (basename file_path) of
        [] \<Rightarrow> Inl IndexError
      | p0 # ps \<Rightarrow>
          (case py_int env cmd_time of
             Inl e \<Rightarrow> Inl e
           | Inr n \<Rightarrow>
               (case ps of
                  [] \<Rightarrow> Inl IndexError
                | p1 # _ \<Rightarrow>
                    (case fs w file_path of
                       None \<Rightarrow> Inl OSError
                     | Some f \<Rightarrow>
                         if os_fails env (Copyfile file_path dest_dir) then Inl OSError
                         else Inr (w\<lparr>cmdlog := cmdlog w @
                                [(dest_dir, if valid then p0 else ''INVALID_'' @ p0, n, p1,
                                  content f)]\<rparr>)))))"

section \<open>The main command/control loop\<close>

subsection \<open>One command of a batch\<close>

text \<open>
  \<^verbatim>\<open>if "nodes" in command: ... if node_targets and node_id not in node_targets\<close>:
  whether the command is for another node.
\<close>

definition not_for_us :: "json \<Rightarrow> (string \<times> json) list \<Rightarrow> error + bool" where
  "not_for_us node_id c =
     (case map_of c ''nodes'' of
        None \<Rightarrow> Inr False
      | Some node_targets \<Rightarrow>
          if truthy node_targets
          then (case py_in node_id node_targets of Inl e \<Rightarrow> Inl e | Inr b \<Rightarrow> Inr (\<not> b))
          else Inr False)"

text \<open>The \<^verbatim>\<open>stop\<close> command: \<^verbatim>\<open>terminate_process(process)\<close>.\<close>

definition stop_process :: "world \<Rightarrow> world" where
  "stop_process w = (case terminate_process (process w) w of (p, w') \<Rightarrow> w'\<lparr>process := p\<rparr>)"

text \<open>
  The \<^verbatim>\<open>delay\<close> command: \<^verbatim>\<open>time.sleep(info.get("time", 0) / 1000)\<close>. The division
  raises on a value that is no number, \<^verbatim>\<open>time.sleep\<close> on a negative length and on one
  too large for the platform.
\<close>

definition delay :: "env \<Rightarrow> json \<Rightarrow> world \<Rightarrow> outcome" where
  "delay env info w =
     (case info of
        JObj d \<Rightarrow>
          (case num_of (dict_get d ''time'' (JNum 0)) of
             None \<Rightarrow> Raised TypeError w
           | Some duration \<Rightarrow>
               if duration / 1000 < 0 then Raised ValueError w
               else if max_sleep env < duration / 1000 then Raised OverflowError w
               else Normal (record_effect (Slept (duration / 1000)) w))
      | _ \<Rightarrow> Raised AttributeError w)"

text \<open>\<^verbatim>\<open>"{}".format(v)\<close>: a string as it is, any other value as \<^verbatim>\<open>str\<close> prints it.\<close>

definition format_value :: "env \<Rightarrow> json \<Rightarrow> string" where
  "format_value env v = (case v of JStr s \<Rightarrow> s | _ \<Rightarrow> py_str env v)"

text \<open>\<^verbatim>\<open>"{}/{}".format(management_directory, info.get("path", ""))\<close>\<close>

definition update_path :: "config \<Rightarrow> env \<Rightarrow> (string \<times> json) list \<Rightarrow> string" where
  "update_path cfg env info =
     management_directory cfg @ ''/'' @ format_value env (dict_get info ''path'' (JStr []))"

text \<open>
  The \<^verbatim>\<open>update\<close> command from the point where \<^verbatim>\<open>install_path\<close> has become the local
  path \<^verbatim>\<open>valid_paths[install_path]\<close>: make the directory, download to the temporary
  path, compare the hash, move the file into place, make the binary executable, and
  leave when the path is \<^verbatim>\<open>"wrapper"\<close>. \<^verbatim>\<open>os.chmod(binary_path, ...)\<close> gets the path as it
  was given on the command line: the file it changes is the one the operating system
  finds under it, and it raises when there is none or when the operating system
  refuses the change.
\<close>

definition install ::
  "config \<Rightarrow> env \<Rightarrow> nat \<Rightarrow> real \<Rightarrow> (string \<times> json) list \<Rightarrow> string \<Rightarrow> world \<Rightarrow> outcome" where
  "install cfg env i timestamp info install_path w =
     (if os_fails env (Makedirs (dirname install_path)) then Raised OSError w
      else
        let tmp_path = install_path @ ''.tmp'';
            w1 = record_effect (Downloaded (update_path cfg env info) tmp_path)
                   (download env (update_path cfg env info) tmp_path
                      (record_effect (MadeDirs (dirname install_path)) w))
        in case fs w1 tmp_path of
             None \<Rightarrow> Raised OSError w1
           | Some update_file \<Rightarrow>
               if JStr (sha256_hexdigest env (content update_file)) \<noteq>
                    dict_get info ''sha256sum'' (JStr [])
               then Normal (consume i timestamp w1)
               else if os_fails env (Replace tmp_path install_path)
               then Normal (consume i timestamp w1)
               else
                 let w2 = record_effect (Replaced tmp_path install_path)
                            (w1\<lparr>fs := (fs w1)(tmp_path := None, install_path := Some update_file)\<rparr>)
                 in if os_fails env (Chmod (binary_path cfg)) then Raised OSError w2
                    else
                      (case fs w2 (abspath cfg (binary_path cfg)) of
                         None \<Rightarrow> Raised OSError w2
                       | Some b \<Rightarrow>
                           let w3 = record_effect (Chmodded (binary_path cfg) S_IEXEC)
                                      (w2\<lparr>fs := (fs w2)(abspath cfg (binary_path cfg) \<mapsto>
                                                    b\<lparr>mode := S_IEXEC\<rparr>)\<rparr>)
                           in if install_path = ''wrapper'' then Exited 0 w3 else Normal w3))"

text \<open>
  The \<^verbatim>\<open>update\<close> command up to there: updates disabled, then the check of
  \<^verbatim>\<open>info.get("install_path", "")\<close> against the keys of \<^verbatim>\<open>valid_paths\<close> (a list or a dict
  cannot be hashed and raises; any other value that is no key is refused).
\<close>

definition run_update :: "config \<Rightarrow> env \<Rightarrow> nat \<Rightarrow> real \<Rightarrow> json \<Rightarrow> world \<Rightarrow> outcome" where
  "run_update cfg env i timestamp info w =
     (if disableupdates cfg then Normal (consume i timestamp w)
      else case info of
        JObj d \<Rightarrow>
          (case dict_get d ''install_path'' (JStr []) of
             JStr k \<Rightarrow>
               (case map_of (valid_paths cfg) k of
                  None \<Rightarrow> Normal (consume i timestamp w)
                | Some install_path \<Rightarrow> install cfg env i timestamp d install_path w)
           | JArr _ \<Rightarrow> Raised TypeError w
           | JObj _ \<Rightarrow> Raised TypeError w
           | _ \<Rightarrow> Normal (consume i timestamp w))
      | _ \<Rightarrow> Raised AttributeError w)"

text \<open>The body of \<^verbatim>\<open>for command in signed_commands.get("commands", list())\<close>.\<close>

definition run_command ::
  "config \<Rightarrow> env \<Rightarrow> nat \<Rightarrow> real \<Rightarrow> json \<Rightarrow> json \<Rightarrow> world \<Rightarrow> outcome" where
  "run_command cfg env i timestamp node_id command w =
     (case command of
        JObj c \<Rightarrow>
          (case not_for_us node_id c of
             Inl e \<Rightarrow> Raised e w
           | Inr True \<Rightarrow> Normal (consume i timestamp w)
           | Inr False \<Rightarrow>
               if dict_get c ''command'' (JStr []) = JStr ''start'' then
                 (if not_running env w then start_with_config cfg env w else Normal w)
               else if dict_get c ''command'' (JStr []) = JStr ''stop'' then
                 Normal (stop_process w)
               else if dict_get c ''command'' (JStr []) = JStr ''delay'' then
                 delay env (dict_get c ''info'' (JObj [])) w
               else if dict_get c ''command'' (JStr []) = JStr ''update'' then
                 run_update cfg env i timestamp (dict_get c ''info'' (JObj [])) w
               else Normal w)
      | JStr _ \<Rightarrow> Raised AttributeError w
      | JArr _ \<Rightarrow> Raised AttributeError w
      | _ \<Rightarrow> Raised TypeError w)"

text \<open>The loop: an exception or an exit leaves it, with the commands after it not run.\<close>

fun run_commands ::
  "config \<Rightarrow> env \<Rightarrow> nat \<Rightarrow> real \<Rightarrow> json \<Rightarrow> json list \<Rightarrow> world \<Rightarrow> outcome" where
  "run_commands cfg env i timestamp node_id [] w = Normal w"
| "run_commands cfg env i timestamp node_id (command # rest) w =
     (case run_command cfg env i timestamp node_id command w of
        Normal w' \<Rightarrow> run_commands cfg env i timestamp node_id rest w'
      | Raised e w' \<Rightarrow> Raised e w'
      | Exited n w' \<Rightarrow> Exited n w')"

subsection \<open>One feed\<close>

text \<open>
  From \<^verbatim>\<open>timestamp = signed_commands.get("timestamp", 0)\<close> to the last
  \<^verbatim>\<open>timestamps[i] = timestamp\<close>, for a command set that is verified and not \<^verbatim>\<open>None\<close>:
  save the command, skip it when it is outdated, otherwise run its commands and record
  its timestamp.
\<close>

definition apply_batch ::
  "config \<Rightarrow> env \<Rightarrow> nat \<Rightarrow> string \<Rightarrow> json \<Rightarrow> world \<Rightarrow> outcome" where
  "apply_batch cfg env i local_path signed_commands w =
     (case signed_commands of
        JObj b \<Rightarrow>
          (case save_cmd env local_path (cmd_log_dir cfg) True (dict_get b ''timestamp'' (JNum 0)) w of
             Inl e \<Rightarrow> Raised e w
           | Inr w1 \<Rightarrow>
               if length (timestamps w1) \<le> i then Raised IndexError w1
               else
                 (case num_of (dict_get b ''timestamp'' (JNum 0)) of
                    None \<Rightarrow> Raised TypeError w1
                  | Some timestamp \<Rightarrow>
                      if timestamp \<le> timestamps w1 ! i then Normal w1
                      else
                        (case get_node_id env (id_path cfg) w1 of
                           (node_id, w2) \<Rightarrow>
                             (case iter_json (dict_get b ''commands'' (JArr [])) of
                                Inl e \<Rightarrow> Raised e w2
                              | Inr commands \<Rightarrow>
                                  (case run_commands cfg env i timestamp node_id commands w2 of
                                     Normal w3 \<Rightarrow> Normal (consume i timestamp w3)
                                   | Raised e w3 \<Rightarrow> Raised e w3
                                   | Exited n w3 \<Rightarrow> Exited n w3)))))
      | _ \<Rightarrow> Raised AttributeError w)"

definition tmp_dir :: string where
  "tmp_dir = ''/tmp''"

text \<open>
  The body of the \<^verbatim>\<open>try\<close> for one remote path: download the command file, open it,
  verify it, log and drop a file that is empty or not verified, and apply the rest.
\<close>

definition fetch_and_apply :: "config \<Rightarrow> env \<Rightarrow> nat \<Rightarrow> string \<Rightarrow> world \<Rightarrow> outcome" where
  "fetch_and_apply cfg env i remote_path w =
     (let local_path = tmp_dir @ ''/'' @ basename remote_path;
          w1 = download env remote_path local_path w
      in case fs w1 local_path of
           None \<Rightarrow> Raised OSError w1
         | Some cmd_file \<Rightarrow>
             (case verify_cmd env (content cmd_file) (rsa_certificate_path cfg) w1 of
                Inl e \<Rightarrow> Raised e w1
              | Inr (signed_commands, ok) \<Rightarrow>
                  if signed_commands = JNull then
                    (case save_cmd env local_path (cmd_log_dir cfg) False (JNum (now env)) w1 of
                       Inl e \<Rightarrow> Raised e w1
                     | Inr w2 \<Rightarrow> Normal w2)
                  else if ok then apply_batch cfg env i local_path signed_commands w1
                  else
                    (case save_cmd env local_path (cmd_log_dir cfg) ok (JNum (now env)) w1 of
                       Inl e \<Rightarrow> Raised e w1
                     | Inr w2 \<Rightarrow> Normal w2)))"

text \<open>\<^verbatim>\<open>except Exception\<close>: the error is logged and the feed is done for this tick.\<close>

definition process_feed :: "config \<Rightarrow> env \<Rightarrow> nat \<Rightarrow> string \<Rightarrow> world \<Rightarrow> outcome" where
  "process_feed cfg env i remote_path w =
     (case fetch_and_apply cfg env i remote_path w of
        Normal w' \<Rightarrow> Normal w'
      | Raised e w' \<Rightarrow> Normal w'
      | Exited n w' \<Rightarrow> Exited n w')"

subsection \<open>One tick, and the run of the agent\<close>

definition remotes_paths :: "config \<Rightarrow> string list" where
  "remotes_paths cfg =
     [management_directory cfg @ ''/version.jsonl'', management_directory cfg @ ''/command.jsonl'']"

text \<open>\<^verbatim>\<open>for i, remote_path in enumerate(remotes_paths)\<close>, from index \<open>i\<close> on.\<close>

fun feeds_loop :: "config \<Rightarrow> env \<Rightarrow> nat \<Rightarrow> string list \<Rightarrow> world \<Rightarrow> outcome" where
  "feeds_loop cfg env i [] w = Normal w"
| "feeds_loop cfg env i (remote_path # rest) w =
     (case process_feed cfg env i remote_path w of
        Normal w' \<Rightarrow> feeds_loop cfg env (Suc i) rest w'
      | Raised e w' \<Rightarrow> Raised e w'
      | Exited n w' \<Rightarrow> Exited n w')"

text \<open>
  The restart on a recovered error file: end a running process (without waiting for
  it), start the binary again; an \<^verbatim>\<open>IOError\<close> of the start is logged.
\<close>

definition restart_on_error :: "config \<Rightarrow> env \<Rightarrow> world \<Rightarrow> world" where
  "restart_on_error cfg env w =
     (case err_output_path cfg of
        None \<Rightarrow> w
      | Some p \<Rightarrow>
          if p = [] then w
          else if fs w p = None then w
          else world_of (start_with_config cfg env
                 (if not_running env w then w else stop_process w)))"

definition poll_tick :: "config \<Rightarrow> env \<Rightarrow> world \<Rightarrow> outcome" where
  "poll_tick cfg env w = feeds_loop cfg env 0 (remotes_paths cfg) (restart_on_error cfg env w)"

text \<open>\<^verbatim>\<open>while True\<close>, for as many ticks as there are environments; an exit ends the run.\<close>

fun run_ticks :: "config \<Rightarrow> env list \<Rightarrow> world \<Rightarrow> outcome" where
  "run_ticks cfg [] w = Normal w"
| "run_ticks cfg (env # envs) w =
     (case poll_tick cfg env w of
        Normal w' \<Rightarrow> run_ticks cfg envs w'
      | Raised e w' \<Rightarrow> Raised e w'
      | Exited n w' \<Rightarrow> Exited n w')"

subsection \<open>Startup\<close>

text \<open>\<^verbatim>\<open>timestamps = [0, time.time()]\<close>\<close>

definition initial_timestamps :: "env \<Rightarrow> real list" where
  "initial_timestamps env = [0, now env]"

text \<open>
  The state when the main loop starts, over the files found at startup: no process, no
  effect yet, and the node identifier resolved once.
\<close>

definition startup :: "config \<Rightarrow> env \<Rightarrow> (string \<Rightarrow> local_file option) \<Rightarrow> world" where
  "startup cfg env files =
     snd (get_node_id env (id_path cfg)
       \<lparr>fs = files, cmdlog = [], timestamps = initial_timestamps env, process = None,
        next_pid = 1, read_node_id = JNull, generated_uuid = None, effects = []\<rparr>)"

section \<open>A concrete machine for the examples\<close>

text \<open>
  One installation, used by the examples below: the binary and the script under
  \<^verbatim>\<open>/opt/xx\<close>, the configuration and the certificate under \<^verbatim>\<open>/etc/xx\<close>, updates enabled.
  The agent runs in \<^verbatim>\<open>/opt/xx\<close>: \<open>abspath\<close> is given on the paths the examples use, which
  are absolute but for \<^verbatim>\<open>./node\<close>.
\<close>

definition example_config :: config where
  "example_config =
     \<lparr>binary_path = ''/opt/xx/node'',
      argv0 = ''/opt/xx/wrapper.py'',
      abspath = (\<lambda>p. if p = ''./node'' then ''/opt/xx/node'' else p),
      expanduser = (\<lambda>p. p),
      config_file = ''/etc/xx/node.yaml'',
      rsa_certificate_path = ''/etc/xx/nm.crt'',
      management_directory = ''mgmt'',
      log_path = ''/opt/xx/xx.log'',
      cmd_log_dir = ''/etc/xx/cmdlog'',
      id_path = ''/opt/xx/IDF.json'',
      err_output_path = None,
      disableupdates = False\<rparr>"

text \<open>
  SHA-256 on the two byte strings the examples download: the digests of \<^verbatim>\<open>b"abc"\<close> and of
  \<^verbatim>\<open>b""\<close>, as \<^verbatim>\<open>hexdigest\<close> prints them.
\<close>

definition abc_digest :: string where
  "abc_digest = ''ba7816bf8f01cfea414140de5dae2223b00361a396177a9cb410ff61f20015ad''"

definition example_sha256 :: "string \<Rightarrow> string" where
  "example_sha256 bs =
     (if bs = ''abc'' then abc_digest
      else if bs = [] then ''e3b0c44298fc1c149afbf4c8996fb92427ae41e4649b934ca495991b7852b855''
      else [])"

text \<open>
  A signed command file: the command set of timestamp 150 that starts the binary, and
  the line with its signature.
\<close>

definition command_line :: string where
  \<open>command_line = ''{"timestamp": 150, "commands": [{"command": "start"}]}''\<close>

definition signature_line :: string where
  \<open>signature_line = ''{"signature": "c2ln"}''\<close>

definition example_envelope :: string where
  "example_envelope = command_line @ [newline] @ signature_line @ [newline]"

definition example_batch :: json where
  "example_batch =
     JObj [(''timestamp'', JNum 150), (''commands'', JArr [JObj [(''command'', JStr ''start'')]])]"

text \<open>
  An environment in which no system call fails and no child exits by itself. The
  object store holds the new binary \<^verbatim>\<open>mgmt/v2/node\<close>, with the bytes \<^verbatim>\<open>abc\<close>, and the
  command feed \<^verbatim>\<open>mgmt/command.jsonl\<close>; new files get the mode \<^verbatim>\<open>0o644\<close>; the clock reads
  1000. The library functions are tables over the texts of the examples: the two lines
  of the command file decode to their values, \<^verbatim>\<open>c2ln\<close> is the base64 of \<^verbatim>\<open>sig\<close>, and
  \<^verbatim>\<open>sig\<close> is the signature of the command line under the key of the certificate.
\<close>

definition example_env :: env where
  "example_env =
     \<lparr>now = 1000,
      download_file =
        (\<lambda>src dst. if src = ''mgmt/v2/node'' then Some ''abc''
                   else if src = ''mgmt/command.jsonl'' then Some example_envelope
                   else None),
      create_mode = 420,
      os_fails = (\<lambda>c. False),
      child_exited = (\<lambda>p. False),
      uuid1 = ''generated-uuid'',
      max_sleep = 1000000,
      sha256_hexdigest = example_sha256,
      json_loads =
        (\<lambda>s. if s = command_line then Some example_batch
             else if s = signature_line @ [newline] then Some (JObj [(''signature'', JStr ''c2ln'')])
             else None),
      b64decode = (\<lambda>v. if v = JStr ''c2ln'' then Some ''sig'' else None),
      load_certificate = (\<lambda>pem. if pem = ''PEM'' then Some ''key'' else None),
      crypto_verify = (\<lambda>k s m. k = ''key'' \<and> s = ''sig'' \<and> m = command_line),
      py_str = (\<lambda>v. []),
      int_of_str = (\<lambda>s. None),
      text_readline = (\<lambda>bs. Some (ascii_readline bs)),
      text_read = Some,
      str_strip = ascii_strip\<rparr>"

text \<open>The same environment with a binary that cannot be started.\<close>

definition failing_env :: env where
  "failing_env = example_env\<lparr>os_fails := (\<lambda>c. c = Popen ''/opt/xx/node'')\<rparr>"

text \<open>The same installation with the binary given as \<^verbatim>\<open>--binary ./node\<close>.\<close>

definition relative_config :: config where
  "relative_config = example_config\<lparr>binary_path := ''./node''\<rparr>"

text \<open>
  The files of that installation: the binary and the script (mode \<^verbatim>\<open>0o755\<close>), the
  configuration and the certificate (mode \<^verbatim>\<open>0o644\<close>), and the two command files an
  earlier tick has downloaded.
\<close>

definition example_files :: "string \<Rightarrow> local_file option" where
  "example_files =
     [''/opt/xx/node'' \<mapsto> \<lparr>content = ''old-node'', mode = 493\<rparr>,
      ''/opt/xx/wrapper.py'' \<mapsto> \<lparr>content = ''old-wrapper'', mode = 493\<rparr>,
      ''/etc/xx/node.yaml'' \<mapsto> \<lparr>content = ''old-config'', mode = 420\<rparr>,
      ''/etc/xx/nm.crt'' \<mapsto> \<lparr>content = ''PEM'', mode = 420\<rparr>,
      ''/tmp/version.jsonl'' \<mapsto> \<lparr>content = example_envelope, mode = 420\<rparr>,
      ''/tmp/command.jsonl'' \<mapsto> \<lparr>content = example_envelope, mode = 420\<rparr>]"

text \<open>
  A state of the agent over these files: no process runs, both feeds are at timestamp
  100, the node is \<^verbatim>\<open>node-1\<close>.
\<close>

definition example_world :: world where
  "example_world =
     \<lparr>fs = example_files, cmdlog = [], timestamps = [100, 100], process = None,
      next_pid = 1, read_node_id = JStr ''node-1'', generated_uuid = None, effects = []\<rparr>"

text \<open>An update command for the registry key \<open>k\<close>, with the hash \<open>h\<close> expected.\<close>

definition update_info :: "string \<Rightarrow> string \<Rightarrow> (string \<times> json) list" where
  "update_info k h =
     [(''install_path'', JStr k), (''path'', JStr ''v2/node''), (''sha256sum'', JStr h)]"

definition update_command :: "string \<Rightarrow> string \<Rightarrow> json" where
  "update_command k h = JObj [(''command'', JStr ''update''), (''info'', JObj (update_info k h))]"

text \<open>A command set of timestamp 150 with two commands: start the binary, update it.\<close>

definition start_then_update :: json where
  "start_then_update =
     JObj [(''timestamp'', JNum 150),
           (''commands'',
            JArr [JObj [(''command'', JStr ''start'')],
                  update_command ''binary'' abc_digest])]"

text \<open>
  A command for another node, and a command set of timestamp 150 whose first command
  names an install path that is no key of the registry.
\<close>

definition other_node_items :: "(string \<times> json) list" where
  "other_node_items = [(''nodes'', JArr [JStr ''node-2'']), (''command'', JStr ''stop'')]"

definition refused_then_start :: "(string \<times> json) list" where
  "refused_then_start =
     [(''timestamp'', JNum 150),
      (''commands'', JArr [update_command ''nope'' ''00'', JObj [(''command'', JStr ''start'')]])]"

text \<open>A command set of timestamp 100, the timestamp both feeds have reached.\<close>

definition old_batch_items :: "(string \<times> json) list" where
  "old_batch_items =
     [(''timestamp'', JNum 100), (''commands'', JArr [JObj [(''command'', JStr ''start'')]])]"

section \<open>Facts about the single steps\<close>

lemmas example_defs =
  example_config_def relative_config_def example_env_def failing_env_def example_files_def
  example_world_def
  example_sha256_def abc_digest_def update_info_def update_command_def start_then_update_def
  example_batch_def old_batch_items_def other_node_items_def refused_then_start_def
  example_envelope_def command_line_def signature_line_def

lemmas step_defs =
  run_command_def run_update_def install_def not_for_us_def dict_get_def valid_paths_def
  update_path_def format_value_def download_def record_effect_def consume_def
  start_with_config_def start_binary_def stop_process_def terminate_process_def
  not_running_def delay_def dirname_def S_IEXEC_def

lemma consume_fields [simp]:
  "fs (consume i t w) = fs w"
  "effects (consume i t w) = effects w"
  "process (consume i t w) = process w"
  "timestamps (consume i t w) = (timestamps w)[i := t]"
  by (simp_all add: consume_def)

lemma record_effect_fields [simp]:
  "fs (record_effect e w) = fs w"
  "effects (record_effect e w) = effects w @ [e]"
  "process (record_effect e w) = process w"
  "timestamps (record_effect e w) = timestamps w"
  by (simp_all add: record_effect_def)

lemma download_fields [simp]:
  "effects (download env s d w) = effects w"
  "process (download env s d w) = process w"
  "timestamps (download env s d w) = timestamps w"
  by (simp_all add: download_def split: option.splits)

section \<open>The update command\<close>

lemma download_record_effect:
  "download env s d (record_effect e w) = record_effect e (download env s d w)"
  by (simp add: download_def record_effect_def split: option.splits)

lemma fs_download:
  "fs (download env s d w) =
     (case download_file env s d of
        None \<Rightarrow> fs w
      | Some bs \<Rightarrow> (fs w)(d \<mapsto> \<lparr>content = bs, mode = create_mode env\<rparr>))"
  by (simp add: download_def split: option.splits)

lemma fs_download_other: "q \<noteq> d \<Longrightarrow> fs (download env s d w) q = fs w q"
  by (simp add: fs_download split: option.splits)

lemma run_update_valid_key:
  assumes "\<not> disableupdates cfg"
    and "dict_get d ''install_path'' (JStr []) = JStr k"
    and "map_of (valid_paths cfg) k = Some p"
  shows "run_update cfg env i t (JObj d) w = install cfg env i t d p w"
  using assms by (simp add: run_update_def)

text \<open>The update that stops at the hash check.\<close>

lemma install_hash_mismatch:
  assumes dirs: "\<not> os_fails env (Makedirs (dirname p))"
    and got: "download_file env (update_path cfg env d) (p @ ''.tmp'') = Some bs"
    and bad: "dict_get d ''sha256sum'' (JStr []) \<noteq> JStr (sha256_hexdigest env bs)"
  shows "install cfg env i t d p w =
           Normal (consume i t
             (record_effect (Downloaded (update_path cfg env d) (p @ ''.tmp''))
               (record_effect (MadeDirs (dirname p))
                 (download env (update_path cfg env d) (p @ ''.tmp'') w))))"
  using assms by (simp add: install_def Let_def download_record_effect fs_download)

text \<open>The update that goes through: the state it ends in, field by field.\<close>

lemma install_hash_match:
  assumes dirs: "\<not> os_fails env (Makedirs (dirname p))"
    and tmp: "fs (download env (update_path cfg env d) (p @ ''.tmp'') w) (p @ ''.tmp'') = Some f"
    and good: "dict_get d ''sha256sum'' (JStr []) = JStr (sha256_hexdigest env (content f))"
    and repl: "\<not> os_fails env (Replace (p @ ''.tmp'') p)"
    and chm: "\<not> os_fails env (Chmod (binary_path cfg))"
    and bin: "((fs (download env (update_path cfg env d) (p @ ''.tmp'') w))
                 (p @ ''.tmp'' := None, p := Some f)) (abspath cfg (binary_path cfg)) = Some b"
  shows "\<exists>w3. install cfg env i t d p w = (if p = ''wrapper'' then Exited 0 w3 else Normal w3)
           \<and> fs w3 = ((fs (download env (update_path cfg env d) (p @ ''.tmp'') w))
                          (p @ ''.tmp'' := None, p := Some f))
                          (abspath cfg (binary_path cfg) \<mapsto> b\<lparr>mode := S_IEXEC\<rparr>)
           \<and> effects w3 = effects w @ [MadeDirs (dirname p),
                  Downloaded (update_path cfg env d) (p @ ''.tmp''),
                  Replaced (p @ ''.tmp'') p, Chmodded (binary_path cfg) S_IEXEC]
           \<and> timestamps w3 = timestamps w \<and> process w3 = process w"
proof -
  let ?w1 = "record_effect (Downloaded (update_path cfg env d) (p @ ''.tmp''))
               (record_effect (MadeDirs (dirname p))
                 (download env (update_path cfg env d) (p @ ''.tmp'') w))"
  let ?w2 = "record_effect (Replaced (p @ ''.tmp'') p)
               (?w1\<lparr>fs := (fs ?w1)(p @ ''.tmp'' := None, p := Some f)\<rparr>)"
  let ?w3 = "record_effect (Chmodded (binary_path cfg) S_IEXEC)
               (?w2\<lparr>fs := (fs ?w2)(abspath cfg (binary_path cfg) \<mapsto> b\<lparr>mode := S_IEXEC\<rparr>)\<rparr>)"
  have "install cfg env i t d p w = (if p = ''wrapper'' then Exited 0 ?w3 else Normal ?w3)"
    using assms by (simp add: install_def Let_def download_record_effect)
  moreover have "fs ?w3 = ((fs (download env (update_path cfg env d) (p @ ''.tmp'') w))
                          (p @ ''.tmp'' := None, p := Some f))
                          (abspath cfg (binary_path cfg) \<mapsto> b\<lparr>mode := S_IEXEC\<rparr>)"
    by (simp add: record_effect_def)
  moreover have "effects ?w3 = effects w @ [MadeDirs (dirname p),
                  Downloaded (update_path cfg env d) (p @ ''.tmp''),
                  Replaced (p @ ''.tmp'') p, Chmodded (binary_path cfg) S_IEXEC]"
    by (simp add: record_effect_def)
  moreover have "timestamps ?w3 = timestamps w" "process ?w3 = process w"
    by (simp_all add: record_effect_def)
  ultimately show ?thesis by blast
qed

text \<open>
  The file at the binary's path when \<^verbatim>\<open>os.chmod\<close> is called: the new file when the
  binary was the target, the old binary otherwise.
\<close>

lemma binary_after_rename:
  assumes tmp: "fs (download env u (p @ ''.tmp'') w) (p @ ''.tmp'') = Some f"
    and bin: "abspath cfg (binary_path cfg) = p \<or>
              (abspath cfg (binary_path cfg) \<noteq> p @ ''.tmp''
               \<and> fs w (abspath cfg (binary_path cfg)) = Some old_binary)"
  shows "((fs (download env u (p @ ''.tmp'') w)) (p @ ''.tmp'' := None, p := Some f))
           (abspath cfg (binary_path cfg))
         = Some (if abspath cfg (binary_path cfg) = p then f else old_binary)"
  using assms by (auto simp: fs_download_other)

text \<open>
  The registry's path of the binary is the file \<^verbatim>\<open>os.chmod(binary_path, ...)\<close> changes,
  unless the path given on the command line starts with the user's home
  (\<^verbatim>\<open>os.chmod\<close> does not expand it).
\<close>

lemma binary_key_is_chmod_path:
  assumes "map_of (valid_paths cfg) ''binary'' = Some p"
    and "expanduser cfg (binary_path cfg) = binary_path cfg"
  shows "p = abspath cfg (binary_path cfg)"
  using assms by (simp add: valid_paths_def)

lemma owner_executable_S_IEXEC [simp]: "owner_executable (f\<lparr>mode := S_IEXEC\<rparr>)"
  by (simp add: owner_executable_def S_IEXEC_def bit_iff_odd)

lemma not_readable_or_writable_S_IEXEC [simp]:
  "\<not> readable_or_writable (f\<lparr>mode := S_IEXEC\<rparr>)"
  "\<not> readable_or_writable (f\<lparr>mode := 64\<rparr>)"
  by (simp_all add: readable_or_writable_def S_IEXEC_def bit_iff_odd)

lemmas example_update_defs =
  example_config_def relative_config_def example_env_def example_world_def example_files_def
  example_sha256_def
  abc_digest_def update_info_def update_command_def dict_get_def valid_paths_def
  update_path_def format_value_def fs_download

subsection \<open>The hash check\<close>

text \<open>
  Claim C5 as the spec states it: the SHA-256 of the downloaded bytes is compared with
  the expected hash without regard to the case of the hex letters, so that an expected
  hash in upper case is accepted. The code compares the two strings with \<^verbatim>\<open>!=\<close>. In the
  example the store holds the bytes \<^verbatim>\<open>abc\<close>, whose digest \<^verbatim>\<open>hexdigest\<close> prints in lower
  case; the command expects the same digest in upper case, and the binary is not
  replaced: the update stops after the download.
\<close>

theorem uppercase_hash_rejected:
  "sha256_hexdigest example_env ''abc'' =
     ''ba7816bf8f01cfea414140de5dae2223b00361a396177a9cb410ff61f20015ad''
   \<and> run_command example_config example_env 1 150 (JStr ''node-1'')
        (update_command ''binary''
           ''BA7816BF8F01CFEA414140DE5DAE2223B00361A396177A9CB410FF61F20015AD'') example_world
      = Normal (example_world
          \<lparr>fs := example_files(''/opt/xx/node.tmp'' \<mapsto> \<lparr>content = ''abc'', mode = 420\<rparr>),
           timestamps := [100, 150],
           effects := [MadeDirs ''/opt/xx'', Downloaded ''mgmt/v2/node'' ''/opt/xx/node.tmp'']\<rparr>)
   \<and> example_files ''/opt/xx/node'' = Some \<lparr>content = ''old-node'', mode = 493\<rparr>"
  by (simp add: example_defs step_defs Let_def)

text \<open>
  Claim C5, amended: the comparison is the equality of strings. For every update command
  with a key of the registry that finds a file at the temporary path after the download
  (the bytes just downloaded or, when the transfer failed, the bytes an earlier update
  left there) and whose rename would not fail, the file is moved into place exactly when
  the expected hash is the string \<^verbatim>\<open>hexdigest\<close> prints for these bytes; an expected hash
  that differs from it in any character, the case of a letter included, is refused.
\<close>

theorem hash_compare_is_exact:
  assumes en: "\<not> disableupdates cfg"
    and key: "dict_get d ''install_path'' (JStr []) = JStr k"
    and reg: "map_of (valid_paths cfg) k = Some p"
    and dirs: "\<not> os_fails env (Makedirs (dirname p))"
    and tmp: "fs (download env (update_path cfg env d) (p @ ''.tmp'') w) (p @ ''.tmp'') = Some f"
    and repl: "\<not> os_fails env (Replace (p @ ''.tmp'') p)"
  shows "(Replaced (p @ ''.tmp'') p \<in>
            set (drop (length (effects w)) (effects (world_of (run_update cfg env i t (JObj d) w)))))
         = (dict_get d ''sha256sum'' (JStr []) = JStr (sha256_hexdigest env (content f)))"
  using run_update_valid_key [OF en key reg, of env i t w] dirs tmp repl
  by (auto simp: install_def Let_def download_record_effect split: option.splits)

theorem hash_compare_is_exact_witness:
  "(Replaced ''/opt/xx/node.tmp'' ''/opt/xx/node'' \<in>
      set (drop (length (effects example_world))
        (effects (world_of (run_update example_config
           (example_env\<lparr>download_file := (\<lambda>src dst. None)\<rparr>) 1 150
           (JObj (update_info ''binary'' abc_digest))
           (example_world\<lparr>fs := example_files(''/opt/xx/node.tmp'' \<mapsto>
               \<lparr>content = ''abc'', mode = 420\<rparr>)\<rparr>))))))
   = (JStr abc_digest = JStr (example_sha256 ''abc''))"
  using hash_compare_is_exact [where cfg = example_config
      and env = "example_env\<lparr>download_file := (\<lambda>src dst. None)\<rparr>"
      and d = "update_info ''binary'' abc_digest" and k = "''binary''" and p = "''/opt/xx/node''"
      and f = "\<lparr>content = ''abc'', mode = 420\<rparr>"
      and w = "example_world\<lparr>fs := example_files(''/opt/xx/node.tmp'' \<mapsto>
               \<lparr>content = ''abc'', mode = 420\<rparr>)\<rparr>" and i = 1 and t = 150]
  by (simp add: example_update_defs)

subsection \<open>A hash that does not match\<close>

text \<open>
  Claim C8 as the spec states it: when the downloaded bytes do not hash to the expected
  value, the update is refused, the downloaded temporary file is discarded, and the file
  at the target is unchanged. The code has no call that removes the temporary file. In
  the example no file \<^verbatim>\<open>/opt/xx/node.tmp\<close> exists before the command; the command expects
  the hash \<^verbatim>\<open>00\<close>, is refused, and the downloaded bytes are still at
  \<^verbatim>\<open>/opt/xx/node.tmp\<close> afterwards.
\<close>

theorem mismatched_download_left_in_place:
  "fs example_world ''/opt/xx/node.tmp'' = None
   \<and> fs (world_of (run_command example_config example_env 1 150 (JStr ''node-1'')
        (update_command ''binary'' ''00'') example_world)) ''/opt/xx/node.tmp''
      = Some \<lparr>content = ''abc'', mode = 420\<rparr>"
  by (simp add: example_defs step_defs Let_def)

text \<open>
  Claim C8, amended: for an update command with a key of the registry whose download
  succeeds with bytes that do not hash to the expected value, the command is refused
  (the loop goes on, with the feed's timestamp recorded), the file at the target path is
  unchanged, and the only file written is the temporary file \<^verbatim>\<open><target>.tmp\<close>, which is
  left in place with the downloaded bytes.
\<close>

theorem hash_mismatch_keeps_target:
  assumes en: "\<not> disableupdates cfg"
    and key: "dict_get d ''install_path'' (JStr []) = JStr k"
    and reg: "map_of (valid_paths cfg) k = Some p"
    and dirs: "\<not> os_fails env (Makedirs (dirname p))"
    and got: "download_file env (update_path cfg env d) (p @ ''.tmp'') = Some bs"
    and bad: "dict_get d ''sha256sum'' (JStr []) \<noteq> JStr (sha256_hexdigest env bs)"
  shows "\<exists>w'. run_update cfg env i t (JObj d) w = Normal w'
           \<and> fs w' p = fs w p
           \<and> fs w' = (fs w)(p @ ''.tmp'' \<mapsto> \<lparr>content = bs, mode = create_mode env\<rparr>)
           \<and> timestamps w' = (timestamps w)[i := t]"
  using run_update_valid_key [OF en key reg] install_hash_mismatch [OF dirs got bad] got
  by (simp add: fs_download)

theorem hash_mismatch_keeps_target_witness:
  "\<exists>w'. run_update example_config example_env 1 150 (JObj (update_info ''binary'' ''00''))
            example_world = Normal w'
        \<and> fs w' ''/opt/xx/node'' = Some \<lparr>content = ''old-node'', mode = 493\<rparr>
        \<and> fs w' = example_files(''/opt/xx/node.tmp'' \<mapsto> \<lparr>content = ''abc'', mode = 420\<rparr>)
        \<and> timestamps w' = [100, 150]"
  using hash_mismatch_keeps_target [where cfg = example_config and env = example_env
      and d = "update_info ''binary'' ''00''" and k = "''binary''" and p = "''/opt/xx/node''"
      and bs = "''abc''" and w = example_world and i = 1 and t = 150]
  by (simp add: example_update_defs)

subsection \<open>The executable bit\<close>

text \<open>
  Claim C6 as the spec states it: after the rename, the file at the install target,
  whichever key it is, is marked owner-executable. The code calls
  \<^verbatim>\<open>os.chmod(binary_path, stat.S_IEXEC)\<close>, under the comment \<^emph>\<open>Make the binary executable\<close>.
  In the example the configuration is updated: the new file is in place at
  \<^verbatim>\<open>/etc/xx/node.yaml\<close> with the mode \<^verbatim>\<open>0o644\<close> the download gave it, and is not
  owner-executable.
\<close>

theorem updated_config_not_executable:
  "map_option content (fs (world_of (run_command example_config example_env 1 150
       (JStr ''node-1'') (update_command ''config'' abc_digest) example_world))
       ''/etc/xx/node.yaml'') = Some ''abc''
   \<and> map_option owner_executable (fs (world_of (run_command example_config example_env 1 150
       (JStr ''node-1'') (update_command ''config'' abc_digest) example_world))
       ''/etc/xx/node.yaml'') = Some False"
  by (simp add: example_defs step_defs Let_def owner_executable_def bit_iff_odd)

text \<open>
  Claim C6, amended: after an update command that completes the rename step and whose
  \<^verbatim>\<open>chmod\<close> does not fail, the file the operating system finds under the configured
  binary path (it is there when the binary was the target or was installed before) is
  owner-executable. The install target is marked by this step exactly when it is that
  file, as it is for the key \<^verbatim>\<open>binary\<close> with a path that does not start at the user's
  home; any other target keeps the bit of the downloaded file.
\<close>

theorem chmod_marks_binary_path:
  assumes en: "\<not> disableupdates cfg"
    and key: "dict_get d ''install_path'' (JStr []) = JStr k"
    and reg: "map_of (valid_paths cfg) k = Some p"
    and dirs: "\<not> os_fails env (Makedirs (dirname p))"
    and tmp: "fs (download env (update_path cfg env d) (p @ ''.tmp'') w) (p @ ''.tmp'') = Some f"
    and good: "dict_get d ''sha256sum'' (JStr []) = JStr (sha256_hexdigest env (content f))"
    and repl: "\<not> os_fails env (Replace (p @ ''.tmp'') p)"
    and chm: "\<not> os_fails env (Chmod (binary_path cfg))"
    and bin: "abspath cfg (binary_path cfg) = p \<or>
              (abspath cfg (binary_path cfg) \<noteq> p @ ''.tmp''
               \<and> fs w (abspath cfg (binary_path cfg)) = Some old_binary)"
  shows "map_option owner_executable
           (fs (world_of (run_update cfg env i t (JObj d) w)) (abspath cfg (binary_path cfg)))
           = Some True
       \<and> map_option owner_executable (fs (world_of (run_update cfg env i t (JObj d) w)) p)
           = Some (if p = abspath cfg (binary_path cfg) then True else owner_executable f)
       \<and> (k = ''binary'' \<and> expanduser cfg (binary_path cfg) = binary_path cfg \<longrightarrow>
            map_option owner_executable (fs (world_of (run_update cfg env i t (JObj d) w)) p)
              = Some True)"
proof -
  obtain w3 where
    r: "install cfg env i t d p w = (if p = ''wrapper'' then Exited 0 w3 else Normal w3)"
    and f3: "fs w3 = ((fs (download env (update_path cfg env d) (p @ ''.tmp'') w))
                        (p @ ''.tmp'' := None, p := Some f))
                        (abspath cfg (binary_path cfg) \<mapsto>
                           (if abspath cfg (binary_path cfg) = p then f else old_binary)
                             \<lparr>mode := S_IEXEC\<rparr>)"
    using install_hash_match [OF dirs tmp good repl chm binary_after_rename [OF tmp bin]]
    by blast
  have w: "world_of (run_update cfg env i t (JObj d) w) = w3"
    using run_update_valid_key [OF en key reg] r by simp
  have same: "k = ''binary'' \<and> expanduser cfg (binary_path cfg) = binary_path cfg
                \<longrightarrow> p = abspath cfg (binary_path cfg)"
    using binary_key_is_chmod_path [of cfg p] reg by blast
  show ?thesis
    unfolding w f3 using same by auto
qed

theorem chmod_marks_binary_path_witness:
  "map_option owner_executable
     (fs (world_of (run_update example_config example_env 1 150
        (JObj (update_info ''config'' abc_digest)) example_world)) ''/opt/xx/node'') = Some True
   \<and> map_option owner_executable
     (fs (world_of (run_update example_config example_env 1 150
        (JObj (update_info ''config'' abc_digest)) example_world)) ''/etc/xx/node.yaml'')
     = Some (owner_executable \<lparr>content = ''abc'', mode = 420\<rparr>)
   \<and> map_option owner_executable
     (fs (world_of (run_update relative_config example_env 1 150
        (JObj (update_info ''binary'' abc_digest)) example_world)) ''/opt/xx/node'') = Some True
   \<and> map_option content
     (fs (world_of (run_update relative_config example_env 1 150
        (JObj (update_info ''binary'' abc_digest)) example_world)) ''/opt/xx/node'') = Some ''abc''"
proof -
  have config_key:
    "map_option owner_executable
       (fs (world_of (run_update example_config example_env 1 150
          (JObj (update_info ''config'' abc_digest)) example_world)) ''/opt/xx/node'') = Some True
     \<and> map_option owner_executable
       (fs (world_of (run_update example_config example_env 1 150
          (JObj (update_info ''config'' abc_digest)) example_world)) ''/etc/xx/node.yaml'')
       = Some (owner_executable \<lparr>content = ''abc'', mode = 420\<rparr>)"
    using chmod_marks_binary_path [where cfg = example_config and env = example_env
        and d = "update_info ''config'' abc_digest" and k = "''config''"
        and p = "''/etc/xx/node.yaml''" and f = "\<lparr>content = ''abc'', mode = 420\<rparr>"
        and old_binary = "\<lparr>content = ''old-node'', mode = 493\<rparr>" and w = example_world
        and i = 1 and t = 150]
    by (simp add: example_update_defs)
  have binary_key:
    "map_option owner_executable
       (fs (world_of (run_update relative_config example_env 1 150
          (JObj (update_info ''binary'' abc_digest)) example_world)) ''/opt/xx/node'') = Some True"
    using chmod_marks_binary_path [where cfg = relative_config and env = example_env
        and d = "update_info ''binary'' abc_digest" and k = "''binary''"
        and p = "''/opt/xx/node''" and f = "\<lparr>content = ''abc'', mode = 420\<rparr>"
        and old_binary = "\<lparr>content = ''old-node'', mode = 493\<rparr>" and w = example_world
        and i = 1 and t = 150]
    by (simp add: example_update_defs)
  have installed:
    "map_option content
       (fs (world_of (run_update relative_config example_env 1 150
          (JObj (update_info ''binary'' abc_digest)) example_world)) ''/opt/xx/node'') = Some ''abc''"
    by (simp add: example_defs step_defs Let_def)
  show ?thesis using config_key binary_key installed by blast
qed



subsection \<open>The update of the script itself\<close>

text \<open>
  A command leaves through \<^verbatim>\<open>sys.exit\<close> only when the local path of its target is the
  string \<^verbatim>\<open>wrapper\<close> itself, which no absolute path is.
\<close>

lemma install_exits_only_at_wrapper:
  "exited (install cfg env i t d p w) \<Longrightarrow> p = ''wrapper''"
  by (simp add: install_def Let_def split: if_splits option.splits)

lemma start_with_config_not_exited [simp]: "\<not> exited (start_with_config cfg env w)"
  by (simp add: start_with_config_def split: sum.splits prod.splits)

lemma delay_not_exited [simp]: "\<not> exited (delay env info w)"
  by (simp add: delay_def split: json.splits option.splits)

lemma exit_needs_path_named_wrapper:
  assumes "exited (run_command cfg env i t nid c w)"
  shows "''wrapper'' \<in> snd ` set (valid_paths cfg)"
proof -
  from assms obtain d k p where "exited (install cfg env i t d p w)"
    and "map_of (valid_paths cfg) k = Some p"
    by (auto simp: run_command_def run_update_def
             split: json.splits sum.splits bool.splits if_splits option.splits)
  then show ?thesis
    using install_exits_only_at_wrapper [of cfg env i t d p w]
    by (auto dest!: map_of_SomeD intro: rev_image_eqI)
qed

text \<open>
  Claim C2: after a successful update of the key \<^verbatim>\<open>wrapper\<close> the agent exits with status
  0. The code tests \<^verbatim>\<open>install_path == "wrapper"\<close> after \<^verbatim>\<open>install_path\<close> has been replaced
  by the local path \<^verbatim>\<open>valid_paths[install_path]\<close>, so the test compares the path of the
  script with the key. In the example the script at \<^verbatim>\<open>/opt/xx/wrapper.py\<close> is replaced by
  the downloaded bytes and the command returns to the loop: it does not exit.
\<close>

theorem wrapper_update_does_not_exit:
  "map_option content (fs (world_of (run_command example_config example_env 1 150
       (JStr ''node-1'') (update_command ''wrapper'' abc_digest) example_world))
       ''/opt/xx/wrapper.py'') = Some ''abc''
   \<and> exited (run_command example_config example_env 1 150
       (JStr ''node-1'') (update_command ''wrapper'' abc_digest) example_world) = False
   \<and> raised (run_command example_config example_env 1 150
       (JStr ''node-1'') (update_command ''wrapper'' abc_digest) example_world) = False"
  by (simp add: example_defs step_defs Let_def)

section \<open>The install path registry\<close>


lemma stop_process_fs [simp]: "fs (stop_process w) = fs w"
  by (simp add: stop_process_def terminate_process_def split: option.splits)


lemma world_of_exit_or_normal [simp]: "world_of (if b then Exited n w else Normal w) = w"
  by simp








section \<open>The replay guard\<close>

text \<open>No command changes \<^verbatim>\<open>timestamps\<close> but by \<^verbatim>\<open>timestamps[i] = timestamp\<close>.\<close>

lemma start_with_config_timestamps:
  "timestamps (world_of (start_with_config cfg env w)) = timestamps w"
  by (simp add: start_with_config_def start_binary_def split: sum.splits prod.splits)

lemma stop_process_timestamps [simp]: "timestamps (stop_process w) = timestamps w"
  by (simp add: stop_process_def terminate_process_def split: option.splits)

lemma delay_timestamps: "timestamps (world_of (delay env info w)) = timestamps w"
  by (simp add: delay_def split: json.splits option.splits)

lemma install_timestamps:
  "timestamps (world_of (install cfg env i t d p w)) \<in> {timestamps w, (timestamps w)[i := t]}"
  by (simp add: install_def Let_def split: option.splits)

lemma run_update_timestamps:
  "timestamps (world_of (run_update cfg env i t info w)) \<in> {timestamps w, (timestamps w)[i := t]}"
  using install_timestamps [of cfg env i t _ _ w]
  by (auto simp: run_update_def split: json.splits option.splits)

lemma run_command_timestamps:
  "timestamps (world_of (run_command cfg env i t nid c w)) \<in> {timestamps w, (timestamps w)[i := t]}"
  using run_update_timestamps [of cfg env i t _ w] delay_timestamps [of env _ w]
    start_with_config_timestamps [of cfg env w]
  by (auto simp: run_command_def split: json.splits sum.splits bool.splits)

lemma run_commands_timestamps:
  "timestamps (world_of (run_commands cfg env i t nid cs w)) \<in> {timestamps w, (timestamps w)[i := t]}"
proof (induction cs arbitrary: w)
  case Nil
  then show ?case by simp
next
  case (Cons c cs)
  show ?case
  proof (cases "run_command cfg env i t nid c w")
    case (Normal w')
    then show ?thesis
      using run_command_timestamps [of cfg env i t nid c w] Cons.IH [of w'] by auto
  next
    case (Raised e w')
    then show ?thesis using run_command_timestamps [of cfg env i t nid c w] by auto
  next
    case (Exited n w')
    then show ?thesis using run_command_timestamps [of cfg env i t nid c w] by auto
  qed
qed


lemma save_cmd_fields:
  assumes "save_cmd env file_path dest_dir valid cmd_time w = Inr w1"
  shows "fs w1 = fs w" "effects w1 = effects w" "process w1 = process w"
    "timestamps w1 = timestamps w"
  using assms
  by (auto simp: save_cmd_def split: if_splits list.splits sum.splits option.splits)

lemma get_node_id_fields:
  assumes "get_node_id env path w = (node_id, w2)"
  shows "fs w2 = fs w" "effects w2 = effects w" "process w2 = process w"
    "timestamps w2 = timestamps w"
  using assms
  by (auto simp: get_node_id_def split: if_splits option.splits)

lemma timestamps_le_update:
  assumes "i < length ts \<Longrightarrow> ts ! i \<le> t"
  shows "list_all2 (\<le>) ts (ts[i := (t::real)])"
proof -
  have "ts ! j \<le> ts[i := t] ! j" if "j < length ts" for j
    using that assms by (cases "j = i") simp_all
  then show ?thesis by (simp add: list_all2_conv_all_nth)
qed

lemma timestamps_le_refl: "list_all2 (\<le>) ts (ts :: real list)"
  by (simp add: list_all2_conv_all_nth)

lemma timestamps_le_trans:
  "list_all2 (\<le>) xs ys \<Longrightarrow> list_all2 (\<le>) ys zs \<Longrightarrow> list_all2 (\<le>) xs (zs :: real list)"
  by (simp add: list_all2_conv_all_nth) (metis order_trans)

text \<open>A command set that is outdated changes nothing but the command log.\<close>

lemma stale_batch_ignored:
  assumes ts: "num_of (dict_get b ''timestamp'' (JNum 0)) = Some t"
    and stale: "t \<le> timestamps w ! i"
  shows "effects (world_of (apply_batch cfg env i lp (JObj b) w)) = effects w"
    "fs (world_of (apply_batch cfg env i lp (JObj b) w)) = fs w"
    "process (world_of (apply_batch cfg env i lp (JObj b) w)) = process w"
    "timestamps (world_of (apply_batch cfg env i lp (JObj b) w)) = timestamps w"
  using assms
  by (auto simp: apply_batch_def save_cmd_fields split: sum.splits)

lemma apply_batch_mono:
  "list_all2 (\<le>) (timestamps w) (timestamps (world_of (apply_batch cfg env i lp sc w)))"
proof (cases sc)
  case (JObj b)
  show ?thesis
  proof (cases "save_cmd env lp (cmd_log_dir cfg) True (dict_get b ''timestamp'' (JNum 0)) w")
    case (Inl e)
    then show ?thesis using JObj by (simp add: apply_batch_def timestamps_le_refl)
  next
    case (Inr w1)
    note w1 = save_cmd_fields(4) [OF Inr]
    show ?thesis
    proof (cases "num_of (dict_get b ''timestamp'' (JNum 0))")
      case None
      then show ?thesis using JObj Inr w1 by (simp add: apply_batch_def timestamps_le_refl)
    next
      case (Some t)
      show ?thesis
      proof (cases "length (timestamps w1) \<le> i \<or> t \<le> timestamps w1 ! i")
        case True
        then show ?thesis
          using JObj Inr w1 Some by (auto simp: apply_batch_def timestamps_le_refl)
      next
        case False
        obtain nid w2 where g: "get_node_id env (id_path cfg) w1 = (nid, w2)"
          by (cases "get_node_id env (id_path cfg) w1")
        note w2 = get_node_id_fields(4) [OF g]
        have le: "list_all2 (\<le>) (timestamps w) ((timestamps w)[i := t])"
          using False w1 by (intro timestamps_le_update) simp
        show ?thesis
        proof (cases "iter_json (dict_get b ''commands'' (JArr []))")
          case (Inl e)
          then show ?thesis
            using JObj Inr Some False g w1 w2 by (simp add: apply_batch_def timestamps_le_refl)
        next
          case (Inr cmds)
          have "timestamps (world_of (run_commands cfg env i t nid cmds w2))
                  \<in> {timestamps w, (timestamps w)[i := t]}"
            using run_commands_timestamps [of cfg env i t nid cmds w2] w1 w2 by simp
          then have "timestamps (world_of (apply_batch cfg env i lp sc w))
                  \<in> {timestamps w, (timestamps w)[i := t]}"
            using JObj \<open>save_cmd _ _ _ _ _ _ = Inr w1\<close> Some False g Inr
            by (auto simp: apply_batch_def split: outcome.splits)
          then show ?thesis using le by (auto simp: timestamps_le_refl)
        qed
      qed
    qed
  qed
qed (simp_all add: apply_batch_def timestamps_le_refl)


lemma apply_batch_effects_only_if_newer:
  assumes "effects (world_of (apply_batch cfg env i lp sc w)) \<noteq> effects w"
  shows "\<exists>b t. sc = JObj b \<and> num_of (dict_get b ''timestamp'' (JNum 0)) = Some t
           \<and> timestamps w ! i < t"
proof (cases sc)
  case (JObj b)
  show ?thesis
  proof (cases "num_of (dict_get b ''timestamp'' (JNum 0))")
    case None
    then show ?thesis
      using assms JObj
      by (auto simp: apply_batch_def save_cmd_fields split: sum.splits if_splits)
  next
    case (Some t)
    have "\<not> t \<le> timestamps w ! i"
      using assms stale_batch_ignored(1) [OF Some, of w i cfg env lp] JObj by auto
    then show ?thesis using JObj Some by simp
  qed
qed (use assms in \<open>simp_all add: apply_batch_def\<close>)

lemma fetch_and_apply_mono:
  "list_all2 (\<le>) (timestamps w) (timestamps (world_of (fetch_and_apply cfg env i rp w)))"
  using apply_batch_mono [of "download env rp (tmp_dir @ ''/'' @ basename rp) w" cfg env i]
  by (auto simp: fetch_and_apply_def Let_def timestamps_le_refl save_cmd_fields
           split: option.splits sum.splits prod.splits)

lemma world_of_process_feed:
  "world_of (process_feed cfg env i rp w) = world_of (fetch_and_apply cfg env i rp w)"
  by (simp add: process_feed_def split: outcome.splits)

lemma process_feed_mono:
  "list_all2 (\<le>) (timestamps w) (timestamps (world_of (process_feed cfg env i rp w)))"
  by (simp add: world_of_process_feed fetch_and_apply_mono)

lemma feeds_loop_mono:
  "list_all2 (\<le>) (timestamps w) (timestamps (world_of (feeds_loop cfg env i rps w)))"
proof (induction rps arbitrary: i w)
  case Nil
  then show ?case by (simp add: timestamps_le_refl)
next
  case (Cons rp rps)
  show ?case
  proof (cases "process_feed cfg env i rp w")
    case (Normal w')
    then show ?thesis
      using process_feed_mono [of w cfg env i rp] Cons.IH [of w' "Suc i"]
      by (auto intro: timestamps_le_trans)
  next
    case (Raised e w')
    then show ?thesis using process_feed_mono [of w cfg env i rp] by simp
  next
    case (Exited n w')
    then show ?thesis using process_feed_mono [of w cfg env i rp] by simp
  qed
qed

lemma restart_on_error_timestamps [simp]:
  "timestamps (restart_on_error cfg env w) = timestamps w"
  by (simp add: restart_on_error_def start_with_config_timestamps split: option.splits)

lemma poll_tick_mono:
  "list_all2 (\<le>) (timestamps w) (timestamps (world_of (poll_tick cfg env w)))"
  using feeds_loop_mono [of "restart_on_error cfg env w" cfg env 0 "remotes_paths cfg"]
  by (simp add: poll_tick_def)

lemma run_ticks_mono:
  "list_all2 (\<le>) (timestamps w) (timestamps (world_of (run_ticks cfg envs w)))"
proof (induction envs arbitrary: w)
  case Nil
  then show ?case by (simp add: timestamps_le_refl)
next
  case (Cons env envs)
  show ?case
  proof (cases "poll_tick cfg env w")
    case (Normal w')
    then show ?thesis
      using poll_tick_mono [of w cfg env] Cons.IH [of w'] by (auto intro: timestamps_le_trans)
  next
    case (Raised e w')
    then show ?thesis using poll_tick_mono [of w cfg env] by simp
  next
    case (Exited n w')
    then show ?thesis using poll_tick_mono [of w cfg env] by simp
  qed
qed

lemma process_feed_effects_only_if_newer:
  assumes "effects (world_of (process_feed cfg env i rp w)) \<noteq> effects w"
  shows "\<exists>cmd_file b t.
           fs (download env rp (tmp_dir @ ''/'' @ basename rp) w) (tmp_dir @ ''/'' @ basename rp)
             = Some cmd_file
         \<and> verify_cmd env (content cmd_file) (rsa_certificate_path cfg)
             (download env rp (tmp_dir @ ''/'' @ basename rp) w) = Inr (JObj b, True)
         \<and> num_of (dict_get b ''timestamp'' (JNum 0)) = Some t
         \<and> timestamps w ! i < t"
proof -
  let ?lp = "tmp_dir @ ''/'' @ basename rp"
  let ?w1 = "download env rp ?lp w"
  from assms have ne: "effects (world_of (fetch_and_apply cfg env i rp w)) \<noteq> effects ?w1"
    by (simp add: world_of_process_feed)
  then obtain cmd_file where cf: "fs ?w1 ?lp = Some cmd_file"
    by (cases "fs ?w1 ?lp") (auto simp: fetch_and_apply_def Let_def)
  from ne cf obtain sc ok where
    v: "verify_cmd env (content cmd_file) (rsa_certificate_path cfg) ?w1 = Inr (sc, ok)"
    by (cases "verify_cmd env (content cmd_file) (rsa_certificate_path cfg) ?w1")
       (auto simp: fetch_and_apply_def Let_def)
  from ne cf v have ok: "ok" and ab: "effects (world_of (apply_batch cfg env i ?lp sc ?w1)) \<noteq> effects ?w1"
    by (auto simp: fetch_and_apply_def Let_def save_cmd_fields split: if_splits sum.splits)
  from apply_batch_effects_only_if_newer [OF ab] obtain b t where
    "sc = JObj b" "num_of (dict_get b ''timestamp'' (JNum 0)) = Some t" "timestamps ?w1 ! i < t"
    by blast
  then show ?thesis using cf v ok by auto
qed

text \<open>
  Claim C1. A command set whose timestamp is not above the feed's entry of
  \<^verbatim>\<open>timestamps\<close> has no effect through the Supervisor or the Update Mechanism: no call is
  recorded, and the files, the process and \<^verbatim>\<open>timestamps\<close> are as before (only the
  command log has the copy). The handling of a feed in a tick records such a call only
  if the command file it downloaded verifies and carries a timestamp strictly above the
  feed's entry. Over any number of poll ticks, in any environments, no entry of
  \<^verbatim>\<open>timestamps\<close> ever decreases.
\<close>

theorem replay_guard:
  "(num_of (dict_get b ''timestamp'' (JNum 0)) = Some t \<and> t \<le> timestamps w ! i \<longrightarrow>
      effects (world_of (apply_batch cfg env i lp (JObj b) w)) = effects w
    \<and> fs (world_of (apply_batch cfg env i lp (JObj b) w)) = fs w
    \<and> process (world_of (apply_batch cfg env i lp (JObj b) w)) = process w
    \<and> timestamps (world_of (apply_batch cfg env i lp (JObj b) w)) = timestamps w)
   \<and> (effects (world_of (process_feed cfg env i rp w)) \<noteq> effects w \<longrightarrow>
        (\<exists>cmd_file nb nt.
           fs (download env rp (tmp_dir @ ''/'' @ basename rp) w) (tmp_dir @ ''/'' @ basename rp)
             = Some cmd_file
         \<and> verify_cmd env (content cmd_file) (rsa_certificate_path cfg)
             (download env rp (tmp_dir @ ''/'' @ basename rp) w) = Inr (JObj nb, True)
         \<and> num_of (dict_get nb ''timestamp'' (JNum 0)) = Some nt
         \<and> timestamps w ! i < nt))
   \<and> list_all2 (\<le>) (timestamps w) (timestamps (world_of (run_ticks cfg envs w)))"
  using stale_batch_ignored [of b t w i cfg env lp]
    process_feed_effects_only_if_newer [of cfg env i rp w] run_ticks_mono [of w cfg envs]
  by blast

theorem replay_guard_witness:
  "effects (world_of (apply_batch example_config example_env 1 ''/tmp/command.jsonl''
      (JObj old_batch_items) example_world)) = []
   \<and> timestamps (world_of (apply_batch example_config example_env 1 ''/tmp/command.jsonl''
      (JObj old_batch_items) example_world)) = [100, 100]
   \<and> (\<exists>cmd_file nb nt.
         fs (download example_env ''mgmt/command.jsonl''
               (tmp_dir @ ''/'' @ basename ''mgmt/command.jsonl'') example_world)
            (tmp_dir @ ''/'' @ basename ''mgmt/command.jsonl'') = Some cmd_file
       \<and> verify_cmd example_env (content cmd_file) (rsa_certificate_path example_config)
            (download example_env ''mgmt/command.jsonl''
               (tmp_dir @ ''/'' @ basename ''mgmt/command.jsonl'') example_world)
          = Inr (JObj nb, True)
       \<and> num_of (dict_get nb ''timestamp'' (JNum 0)) = Some nt
       \<and> timestamps example_world ! 1 < nt)
   \<and> list_all2 (\<le>) (timestamps example_world)
        (timestamps (world_of (run_ticks example_config [example_env] example_world)))"
proof -
  have stale: "num_of (dict_get old_batch_items ''timestamp'' (JNum 0)) = Some 100
      \<and> (100::real) \<le> timestamps example_world ! 1"
    by (simp add: old_batch_items_def dict_get_def example_world_def)
  have acts: "effects (world_of (process_feed example_config example_env 1
      ''mgmt/command.jsonl'' example_world)) \<noteq> effects example_world"
    by (simp add: process_feed_def fetch_and_apply_def apply_batch_def verify_cmd_def
        save_cmd_def get_node_id_def tmp_dir_def basename_def ascii_readline_def ascii_strip_def
        is_space_def newline_def example_defs step_defs Let_def)
  show ?thesis
    using replay_guard [where b = old_batch_items and t = 100 and w = example_world and i = 1
        and cfg = example_config and env = example_env and lp = "''/tmp/command.jsonl''"
        and rp = "''mgmt/command.jsonl''" and envs = "[example_env]"] stale acts
    by (simp add: example_world_def)
qed

section \<open>Startup\<close>

text \<open>
  Claim C4 as the spec states it: at startup every feed's last applied timestamp is the
  current time, so that on both feeds a command set older than the start of the agent is
  ignored. The code starts with \<^verbatim>\<open>timestamps = [0, time.time()]\<close>: the version feed starts
  at 0. In the example the agent starts at time 1000 and the version feed carries the
  command set of timestamp 150: the binary is started and the feed moves to 150.
\<close>

theorem version_feed_starts_at_zero:
  "now example_env = 1000
   \<and> timestamps (startup example_config example_env example_files) = [0, 1000]
   \<and> effects (startup example_config example_env example_files) = []
   \<and> num_of (dict_get [(''timestamp'', JNum 150),
                        (''commands'', JArr [JObj [(''command'', JStr ''start'')]])]
               ''timestamp'' (JNum 0)) = Some 150
   \<and> effects (world_of (apply_batch example_config example_env 0 ''/tmp/version.jsonl''
        example_batch (startup example_config example_env example_files)))
      = [Started ''/opt/xx/node'' [''--config'', ''/etc/xx/node.yaml''] 1]
   \<and> timestamps (world_of (apply_batch example_config example_env 0 ''/tmp/version.jsonl''
        example_batch (startup example_config example_env example_files))) = [150, 1000]"
  by (simp add: startup_def initial_timestamps_def apply_batch_def save_cmd_def get_node_id_def
      read_id_file_def basename_def example_defs step_defs Let_def)

text \<open>
  Claim C4, amended: at startup the last applied timestamp of the command feed (index 1)
  is the current time and that of the version feed (index 0) is 0. So, in the state the
  agent starts in, a command set on the command feed whose timestamp is not above the
  time of the start is ignored, and a command set on the version feed is ignored when its
  timestamp is not above 0: in both cases no call is recorded, and the files, the
  process and \<^verbatim>\<open>timestamps\<close> stay as they are.
\<close>

theorem startup_timestamps:
  "timestamps (startup cfg env files) = [0, now env]
   \<and> (num_of (dict_get b ''timestamp'' (JNum 0)) = Some t \<and> t \<le> now env \<longrightarrow>
        effects (world_of (apply_batch cfg later 1 lp (JObj b) (startup cfg env files))) = []
      \<and> fs (world_of (apply_batch cfg later 1 lp (JObj b) (startup cfg env files))) = files
      \<and> process (world_of (apply_batch cfg later 1 lp (JObj b) (startup cfg env files))) = None
      \<and> timestamps (world_of (apply_batch cfg later 1 lp (JObj b) (startup cfg env files)))
          = [0, now env])
   \<and> (num_of (dict_get vb ''timestamp'' (JNum 0)) = Some vt \<and> vt \<le> 0 \<longrightarrow>
        effects (world_of (apply_batch cfg later 0 lp (JObj vb) (startup cfg env files))) = []
      \<and> fs (world_of (apply_batch cfg later 0 lp (JObj vb) (startup cfg env files))) = files
      \<and> process (world_of (apply_batch cfg later 0 lp (JObj vb) (startup cfg env files))) = None
      \<and> timestamps (world_of (apply_batch cfg later 0 lp (JObj vb) (startup cfg env files)))
          = [0, now env])"
proof -
  obtain nid where s: "get_node_id env (id_path cfg)
       \<lparr>fs = files, cmdlog = [], timestamps = initial_timestamps env, process = None,
        next_pid = 1, read_node_id = JNull, generated_uuid = None, effects = []\<rparr>
     = (nid, startup cfg env files)"
    by (cases "get_node_id env (id_path cfg)
       \<lparr>fs = files, cmdlog = [], timestamps = initial_timestamps env, process = None,
        next_pid = 1, read_node_id = JNull, generated_uuid = None, effects = []\<rparr>")
      (simp add: startup_def)
  note f = get_node_id_fields [OF s]
  have init: "timestamps (startup cfg env files) = [0, now env]"
    "effects (startup cfg env files) = []" "fs (startup cfg env files) = files"
    "process (startup cfg env files) = None"
    using f by (simp_all add: initial_timestamps_def)
  show ?thesis
    using stale_batch_ignored [of b t "startup cfg env files" 1 cfg later lp]
      stale_batch_ignored [of vb vt "startup cfg env files" 0 cfg later lp] init
    by simp
qed

theorem startup_timestamps_witness:
  "timestamps (startup example_config example_env example_files) = [0, 1000]
   \<and> effects (world_of (apply_batch example_config example_env 1 ''/tmp/command.jsonl''
        example_batch (startup example_config example_env example_files))) = []
   \<and> timestamps (world_of (apply_batch example_config example_env 1 ''/tmp/command.jsonl''
        example_batch (startup example_config example_env example_files))) = [0, 1000]
   \<and> effects (world_of (apply_batch example_config example_env 0 ''/tmp/version.jsonl''
        (JObj [(''timestamp'', JNum 0), (''commands'', JArr [JObj [(''command'', JStr ''start'')]])])
        (startup example_config example_env example_files))) = []"
  using startup_timestamps [where cfg = example_config and env = example_env
      and later = example_env and files = example_files and lp = "''/tmp/command.jsonl''"
      and b = "[(''timestamp'', JNum 150), (''commands'', JArr [JObj [(''command'', JStr ''start'')]])]"
      and t = 150]
    startup_timestamps [where cfg = example_config and env = example_env
      and later = example_env and files = example_files and lp = "''/tmp/version.jsonl''"
      and vb = "[(''timestamp'', JNum 0), (''commands'', JArr [JObj [(''command'', JStr ''start'')]])]"
      and vt = 0]
  by (simp add: example_batch_def example_env_def dict_get_def)

section \<open>The command verifier\<close>

text \<open>
  Claim C7 as the spec states it: \<^verbatim>\<open>verify_cmd\<close> never raises to its caller, whatever the
  envelope and the certificate path; a certificate file that cannot be read ends in
  \<^verbatim>\<open>(payload or None, False)\<close>. The code opens the certificate in a \<^verbatim>\<open>with\<close> statement that
  encloses the \<^verbatim>\<open>try\<close>. In the example the certificate file is missing, and the call
  raises.
\<close>

theorem missing_certificate_raises:
  "verify_cmd example_env example_envelope ''/etc/xx/nm.crt''
     (example_world\<lparr>fs := example_files(''/etc/xx/nm.crt'' := None)\<rparr>) = Inl OSError"
  by (simp add: verify_cmd_def example_env_def)

text \<open>
  Claim C7, amended: when the certificate file cannot be opened (there is no file at the
  path, or the operating system refuses to open it), \<^verbatim>\<open>verify_cmd\<close> raises the error to
  its caller, whatever the envelope. For every envelope and every certificate path at
  which a file can be opened, it returns and does not raise: it returns
  \<^verbatim>\<open>(payload, True)\<close> exactly when the certificate loads, the first line is read and,
  stripped, decodes to \<open>payload\<close>, the second line is read and decodes to a dict, its
  signature decodes from base64, and the signature verifies over the stripped first
  line; in every other case it returns \<^verbatim>\<open>(x, False)\<close> where \<open>x\<close> is \<^verbatim>\<open>None\<close> or the decoded
  first line.
\<close>

theorem verify_cmd_returns:
  "(os_fails env (OpenRead public_key_path) \<or> fs w public_key_path = None \<longrightarrow>
      verify_cmd env inbuf public_key_path w = Inl OSError)
   \<and> (\<not> os_fails env (OpenRead public_key_path) \<and> fs w public_key_path = Some cert \<longrightarrow>
        (\<exists>result ok. verify_cmd env inbuf public_key_path w = Inr (result, ok))
      \<and> ((verify_cmd env inbuf public_key_path w = Inr (payload, True)) =
            (\<exists>key line rest sig_line rest' sig_json signature.
               load_certificate env (content cert) = Some key
             \<and> text_readline env inbuf = Some (line, rest)
             \<and> json_loads env (str_strip env line) = Some payload
             \<and> text_readline env rest = Some (sig_line, rest')
             \<and> json_loads env sig_line = Some (JObj sig_json)
             \<and> b64decode env (dict_get sig_json ''signature'' JNull) = Some signature
             \<and> crypto_verify env key signature (str_strip env line)))
      \<and> (verify_cmd env inbuf public_key_path w = Inr (other, False) \<longrightarrow>
            other = JNull
          \<or> (\<exists>line rest. text_readline env inbuf = Some (line, rest)
                \<and> json_loads env (str_strip env line) = Some other)))"
proof (intro conjI impI)
  assume "os_fails env (OpenRead public_key_path) \<or> fs w public_key_path = None"
  then show "verify_cmd env inbuf public_key_path w = Inl OSError"
    by (auto simp: verify_cmd_def)
next
  assume "\<not> os_fails env (OpenRead public_key_path) \<and> fs w public_key_path = Some cert"
  then show "\<exists>result ok. verify_cmd env inbuf public_key_path w = Inr (result, ok)"
    by (auto simp: verify_cmd_def split: option.splits json.splits prod.splits)
next
  assume "\<not> os_fails env (OpenRead public_key_path) \<and> fs w public_key_path = Some cert"
  then show "(verify_cmd env inbuf public_key_path w = Inr (payload, True)) =
            (\<exists>key line rest sig_line rest' sig_json signature.
               load_certificate env (content cert) = Some key
             \<and> text_readline env inbuf = Some (line, rest)
             \<and> json_loads env (str_strip env line) = Some payload
             \<and> text_readline env rest = Some (sig_line, rest')
             \<and> json_loads env sig_line = Some (JObj sig_json)
             \<and> b64decode env (dict_get sig_json ''signature'' JNull) = Some signature
             \<and> crypto_verify env key signature (str_strip env line))"
    by (auto simp: verify_cmd_def split: option.splits json.splits prod.splits)
next
  assume "\<not> os_fails env (OpenRead public_key_path) \<and> fs w public_key_path = Some cert"
    and "verify_cmd env inbuf public_key_path w = Inr (other, False)"
  then show "other = JNull
          \<or> (\<exists>line rest. text_readline env inbuf = Some (line, rest)
                \<and> json_loads env (str_strip env line) = Some other)"
    by (auto simp: verify_cmd_def split: option.splits json.splits prod.splits if_splits)
qed

theorem verify_cmd_returns_witness:
  "verify_cmd example_env example_envelope ''/etc/xx/missing.crt'' example_world = Inl OSError
   \<and> verify_cmd (example_env\<lparr>os_fails := (\<lambda>c. c = OpenRead ''/etc/xx/nm.crt'')\<rparr>)
        example_envelope ''/etc/xx/nm.crt'' example_world = Inl OSError
   \<and> (\<exists>result ok. verify_cmd example_env example_envelope ''/etc/xx/nm.crt'' example_world
         = Inr (result, ok))
   \<and> verify_cmd example_env example_envelope ''/etc/xx/nm.crt'' example_world
       = Inr (example_batch, True)"
proof -
  have missing:
    "verify_cmd example_env example_envelope ''/etc/xx/missing.crt'' example_world = Inl OSError"
    by (rule verify_cmd_returns [THEN conjunct1, THEN mp])
       (simp add: example_world_def example_files_def)
  have refused:
    "verify_cmd (example_env\<lparr>os_fails := (\<lambda>c. c = OpenRead ''/etc/xx/nm.crt'')\<rparr>)
        example_envelope ''/etc/xx/nm.crt'' example_world = Inl OSError"
    by (rule verify_cmd_returns [THEN conjunct1, THEN mp]) simp
  have cert: "\<not> os_fails example_env (OpenRead ''/etc/xx/nm.crt'')
      \<and> fs example_world ''/etc/xx/nm.crt'' = Some \<lparr>content = ''PEM'', mode = 420\<rparr>"
    by (simp add: example_env_def example_world_def example_files_def)
  have lines: "text_readline example_env example_envelope
                 = Some (command_line @ [newline], signature_line @ [newline])"
    "text_readline example_env (signature_line @ [newline]) = Some (signature_line @ [newline], [])"
    "str_strip example_env (command_line @ [newline]) = command_line"
    by (simp_all add: example_env_def example_envelope_def command_line_def signature_line_def
        ascii_readline_def ascii_strip_def is_space_def newline_def)
  have "\<exists>key line rest sig_line rest' sig_json signature.
               load_certificate example_env (content \<lparr>content = ''PEM'', mode = 420\<rparr>) = Some key
             \<and> text_readline example_env example_envelope = Some (line, rest)
             \<and> json_loads example_env (str_strip example_env line) = Some example_batch
             \<and> text_readline example_env rest = Some (sig_line, rest')
             \<and> json_loads example_env sig_line = Some (JObj sig_json)
             \<and> b64decode example_env (dict_get sig_json ''signature'' JNull) = Some signature
             \<and> crypto_verify example_env key signature (str_strip example_env line)"
    unfolding lines
    apply (rule exI [of _ "''key''"])
    apply (rule exI [of _ "command_line @ [newline]"])
    apply (rule exI [of _ "signature_line @ [newline]"])
    apply (rule exI [of _ "signature_line @ [newline]"])
    apply (rule exI [of _ "[]"])
    apply (rule exI [of _ "[(''signature'', JStr ''c2ln'')]"])
    apply (rule exI [of _ "''sig''"])
    apply (simp add: lines)
    apply (simp add: example_env_def dict_get_def command_line_def signature_line_def newline_def)
    done
  then show ?thesis
    using verify_cmd_returns [where env = example_env and inbuf = example_envelope
        and public_key_path = "''/etc/xx/nm.crt''" and w = example_world
        and cert = "\<lparr>content = ''PEM'', mode = 420\<rparr>" and payload = example_batch,
        THEN conjunct2, THEN mp, OF cert] missing refused
    by blast
qed

section \<open>A batch and its entries\<close>










end
